theory Spec2Isabelle
  imports Complex_Main
begin

section \<open>Workflow orchestrator (MasterPhotoCapture.tsx)\<close>

text \<open>
  The orchestrator keeps the current step and one image URL per stage; the empty string
  stands for "no artifact yet", exactly as the \<open>useState<string>('')\<close> cells do.
\<close>

datatype WorkflowStep = WS_capture | WS_crop | WS_enhance | WS_templates | WS_final

record Workflow =
  currentStep :: WorkflowStep
  capturedImage :: string
  croppedImage :: string
  enhancedImage :: string
  finalImage :: string

definition initialWorkflow :: Workflow where
  "initialWorkflow =
     \<lparr>currentStep = WS_capture, capturedImage = '''', croppedImage = '''',
      enhancedImage = '''', finalImage = ''''\<rparr>"

text \<open>\<open>Array.prototype.indexOf\<close>: the first position of the value, or \<open>-1\<close>.\<close>

fun indexOf_from :: "int \<Rightarrow> 'a list \<Rightarrow> 'a \<Rightarrow> int" where
  "indexOf_from i [] v = - 1"
| "indexOf_from i (a # as) v = (if a = v then i else indexOf_from (i + 1) as v)"

definition indexOf :: "'a list \<Rightarrow> 'a \<Rightarrow> int" where
  "indexOf xs v = indexOf_from 0 xs v"

definition steps :: "WorkflowStep list" where
  "steps = [WS_capture, WS_crop, WS_enhance, WS_templates, WS_final]"

definition handlePhotoCaptured :: "string \<Rightarrow> Workflow \<Rightarrow> Workflow" where
  "handlePhotoCaptured imageUrl w = w\<lparr>capturedImage := imageUrl, currentStep := WS_crop\<rparr>"

definition handleTemplateApplied :: "string \<Rightarrow> Workflow \<Rightarrow> Workflow" where
  "handleTemplateApplied templateUrl w = w\<lparr>finalImage := templateUrl, currentStep := WS_final\<rparr>"

definition canGoNext :: "Workflow \<Rightarrow> bool" where
  "canGoNext w =
     (case currentStep w of
        WS_capture \<Rightarrow> capturedImage w \<noteq> ''''
      | WS_crop \<Rightarrow> croppedImage w \<noteq> ''''
      | WS_enhance \<Rightarrow> enhancedImage w \<noteq> ''''
      | WS_templates \<Rightarrow> finalImage w \<noteq> ''''
      | WS_final \<Rightarrow> True)"

definition canGoPrev :: "Workflow \<Rightarrow> bool" where
  "canGoPrev w = (currentStep w \<noteq> WS_capture)"

text \<open>
  \<open>goNext\<close> as written: it looks only at the position of the current step in \<open>steps\<close>
  and never consults \<open>canGoNext\<close>. The index \<open>currentIndex + 1\<close> is in range whenever the
  branch is taken, since \<open>- 1 \<le> currentIndex < 4\<close> there.
\<close>

definition goNext :: "Workflow \<Rightarrow> Workflow" where
  "goNext w =
     (let currentIndex = indexOf steps (currentStep w)
      in if currentIndex < int (length steps) - 1
         then w\<lparr>currentStep := steps ! nat (currentIndex + 1)\<rparr>
         else w)"

definition goPrev :: "Workflow \<Rightarrow> Workflow" where
  "goPrev w =
     (let currentIndex = indexOf steps (currentStep w)
      in if currentIndex > 0
         then w\<lparr>currentStep := steps ! nat (currentIndex - 1)\<rparr>
         else w)"

definition resetWorkflow :: "Workflow \<Rightarrow> Workflow" where
  "resetWorkflow w =
     w\<lparr>capturedImage := '''', croppedImage := '''', enhancedImage := '''',
       finalImage := '''', currentStep := WS_capture\<rparr>"

text \<open>
  The "Next" control of the navigation footer: the footer is rendered only while the step
  is not \<open>final\<close>, and the button carries \<open>onClick={goNext}\<close> with
  \<open>disabled={!canGoNext()}\<close>; a disabled button delivers no click.
\<close>

definition clickNext :: "Workflow \<Rightarrow> Workflow" where
  "clickNext w = (if currentStep w \<noteq> WS_final \<and> canGoNext w then goNext w else w)"

section \<open>File ingestion (EnhancedPhotoCapture, \<open>handleFileUpload\<close>)\<close>

datatype ActiveMode = AM_capture | AM_upload | AM_edit

datatype CaptureStep = CS_capture | CS_crop | CS_enhance | CS_template

record CaptureState =
  activeMode :: ActiveMode
  selectedImage :: "string option"
  editedImage :: "string option"
  captureStep :: CaptureStep

definition initialCapture :: CaptureState where
  "initialCapture =
     \<lparr>activeMode = AM_capture, selectedImage = None, editedImage = None,
      captureStep = CS_capture\<rparr>"

text \<open>
  A chosen file: its declared MIME type, its size in bytes, and what the \<open>FileReader\<close>
  hands to \<open>onload\<close> (\<open>None\<close> when the read never completes or yields no result).
\<close>

record UploadFile =
  file_type :: string
  file_size :: nat
  reader_result :: "string option"

text \<open>
  The two rejections are the two \<open>toast.error\<close> calls: "Format tidak didukung ..." is
  \<open>UnsupportedFormat\<close>, "File terlalu besar. Maksimal 10MB." is \<open>FileTooLarge\<close>.
\<close>

datatype upload_error = UnsupportedFormat | FileTooLarge

definition supportedTypes :: "string list" where
  "supportedTypes = [''image/jpeg'', ''image/jpg'', ''image/png'', ''image/webp'', ''image/heic'']"

text \<open>
  The handler returns the error it reported (if any) together with the component state
  it leaves behind. A truthy reader result is a non-empty string.
\<close>

definition handleFileUpload :: "UploadFile option \<Rightarrow> CaptureState \<Rightarrow> upload_error option \<times> CaptureState" where
  "handleFileUpload file s =
     (case file of
        None \<Rightarrow> (None, s)
      | Some f \<Rightarrow>
          if file_type f \<notin> set supportedTypes then (Some UnsupportedFormat, s)
          else if file_size f > 10 * 1024 * 1024 then (Some FileTooLarge, s)
          else (case reader_result f of
                  None \<Rightarrow> (None, s)
                | Some r \<Rightarrow>
                    if r \<noteq> ''''
                    then (None, s\<lparr>selectedImage := Some r, captureStep := CS_crop,
                                   activeMode := AM_edit\<rparr>)
                    else (None, s)))"

text \<open>Two concrete uploads, each of 11 MiB.\<close>

definition gif_11MiB :: UploadFile where
  "gif_11MiB = \<lparr>file_type = ''image/gif'', file_size = 11 * 1024 * 1024,
                 reader_result = Some ''data:image/gif;base64,R0lGOD''\<rparr>"

definition png_11MiB :: UploadFile where
  "png_11MiB = \<lparr>file_type = ''image/png'', file_size = 11 * 1024 * 1024,
                 reader_result = Some ''data:image/png;base64,iVBORw''\<rparr>"

section \<open>JavaScript numbers where a divisor can be zero\<close>

text \<open>
  Coordinates, sizes and distances in the crop tool are finite numbers and are modelled
  as reals (exact arithmetic; the one quotient that is truncated to an integer, the
  height of the output raster, is rounded as the machine rounds it). Division is the one place where
  a finite model is not enough: JavaScript never raises on a zero divisor, it yields
  \<open>Infinity\<close> or \<open>NaN\<close>, and these values flow on through \<open>*\<close>, \<open>Math.min\<close> and
  \<open>Math.max\<close>. The zoom factor is computed from such a quotient, so it carries the
  special values. \<open>Fin 0\<close> stands for \<open>+0\<close>: every divisor in the code that can be zero
  is a distance or a size, never \<open>-0\<close>.
\<close>

datatype jsnum = Fin real | PInf | NInf | NaN

text \<open>\<open>Infinity * a\<close> for a finite \<open>a\<close>; also \<open>a / 0\<close>.\<close>

definition inf_times :: "real \<Rightarrow> jsnum" where
  "inf_times a = (if a = 0 then NaN else if a > 0 then PInf else NInf)"

fun js_neg :: "jsnum \<Rightarrow> jsnum" where
  "js_neg (Fin a) = Fin (- a)"
| "js_neg PInf = NInf"
| "js_neg NInf = PInf"
| "js_neg NaN = NaN"

fun js_add :: "jsnum \<Rightarrow> jsnum \<Rightarrow> jsnum" where
  "js_add (Fin a) (Fin b) = Fin (a + b)"
| "js_add NaN b = NaN"
| "js_add a NaN = NaN"
| "js_add PInf NInf = NaN"
| "js_add NInf PInf = NaN"
| "js_add PInf b = PInf"
| "js_add NInf b = NInf"
| "js_add a PInf = PInf"
| "js_add a NInf = NInf"

definition js_sub :: "jsnum \<Rightarrow> jsnum \<Rightarrow> jsnum" where
  "js_sub a b = js_add a (js_neg b)"

fun js_mul :: "jsnum \<Rightarrow> jsnum \<Rightarrow> jsnum" where
  "js_mul (Fin a) (Fin b) = Fin (a * b)"
| "js_mul NaN b = NaN"
| "js_mul a NaN = NaN"
| "js_mul (Fin a) PInf = inf_times a"
| "js_mul (Fin a) NInf = inf_times (- a)"
| "js_mul PInf (Fin b) = inf_times b"
| "js_mul NInf (Fin b) = inf_times (- b)"
| "js_mul PInf PInf = PInf"
| "js_mul NInf NInf = PInf"
| "js_mul PInf NInf = NInf"
| "js_mul NInf PInf = NInf"

fun js_div :: "jsnum \<Rightarrow> jsnum \<Rightarrow> jsnum" where
  "js_div (Fin a) (Fin b) = (if b = 0 then inf_times a else Fin (a / b))"
| "js_div NaN b = NaN"
| "js_div a NaN = NaN"
| "js_div (Fin a) PInf = Fin 0"
| "js_div (Fin a) NInf = Fin 0"
| "js_div PInf (Fin b) = (if 0 \<le> b then PInf else NInf)"
| "js_div NInf (Fin b) = (if 0 \<le> b then NInf else PInf)"
| "js_div a b = NaN"

text \<open>\<open>Math.min\<close> and \<open>Math.max\<close> of two arguments: \<open>NaN\<close> if either argument is.\<close>

fun Math_min :: "jsnum \<Rightarrow> jsnum \<Rightarrow> jsnum" where
  "Math_min (Fin a) (Fin b) = Fin (min a b)"
| "Math_min NaN b = NaN"
| "Math_min a NaN = NaN"
| "Math_min NInf b = NInf"
| "Math_min a NInf = NInf"
| "Math_min PInf b = b"
| "Math_min a PInf = a"

fun Math_max :: "jsnum \<Rightarrow> jsnum \<Rightarrow> jsnum" where
  "Math_max (Fin a) (Fin b) = Fin (max a b)"
| "Math_max NaN b = NaN"
| "Math_max a NaN = NaN"
| "Math_max PInf b = PInf"
| "Math_max a PInf = PInf"
| "Math_max NInf b = b"
| "Math_max a NInf = a"

text \<open>
  The remainder operator \<open>%\<close> on integers, for a non-zero divisor: the result takes the
  sign of the dividend.
\<close>

definition js_rem :: "int \<Rightarrow> int \<Rightarrow> int" where
  "js_rem a b = sgn a * (\<bar>a\<bar> mod \<bar>b\<bar>)"

section \<open>Crop controller (MobileCropTool)\<close>

record CropData =
  crop_x :: real
  crop_y :: real
  crop_width :: real
  crop_height :: real
  zoom :: jsnum
  rotation :: int

record TouchPoint =
  point_x :: real
  point_y :: real

text \<open>A \<open>React.Touch\<close>, as far as the handlers read it.\<close>

record Touch =
  clientX :: real
  clientY :: real

record DOMRect =
  rect_left :: real
  rect_top :: real
  rect_width :: real
  rect_height :: real

text \<open>The container \<open>div\<close>: its bounding rectangle and its client size.\<close>

record Container =
  boundingRect :: DOMRect
  clientWidth :: real
  clientHeight :: real

text \<open>The \<open>img\<close> element: natural size of the decoded image and its rectangle on screen.\<close>

record ImageEl =
  naturalWidth :: real
  naturalHeight :: real
  imgDisplayRect :: DOMRect

text \<open>
  What the component reads from outside its own state: the three refs (\<open>None\<close>/\<open>False\<close>
  for a ref that is \<open>null\<close>), whether the canvas yields a 2d context, the object URL that
  \<open>toBlob\<close> leads to (\<open>None\<close> for a \<open>null\<close> blob), and the \<open>aspectRatio\<close> prop. The prop
  is a positive number in every use (\<open>4/6\<close>, \<open>1\<close>, \<open>3/4\<close> from the orchestrator; the
  \<open>CVPhotoRatios\<close> table), so dividing by it never meets a zero divisor.
\<close>

record CropEnv =
  containerRef :: "Container option"
  imageRef :: "ImageEl option"
  canvasRef :: bool
  context2d :: bool
  blobUrl :: "string option"
  aspectRatio :: real

record CropTool =
  cropData :: CropData
  isDragging :: bool
  isResizing :: bool
  isPinching :: bool
  lastTouchDistance :: real
  dragStart :: TouchPoint
  touchStart :: "TouchPoint list"

definition initialCropTool :: CropTool where
  "initialCropTool =
     \<lparr>cropData = \<lparr>crop_x = 0, crop_y = 0, crop_width = 300, crop_height = 450,
                   zoom = Fin 1, rotation = 0\<rparr>,
      isDragging = False, isResizing = False, isPinching = False,
      lastTouchDistance = 0, dragStart = \<lparr>point_x = 0, point_y = 0\<rparr>, touchStart = []\<rparr>"

text \<open>Distance between the first two touches; \<open>0\<close> when there are fewer than two.\<close>

fun getTouchDistance :: "Touch list \<Rightarrow> real" where
  "getTouchDistance (touch1 # touch2 # rest) =
     sqrt ((clientX touch2 - clientX touch1)\<^sup>2 + (clientY touch2 - clientY touch1)\<^sup>2)"
| "getTouchDistance touches = 0"

definition getTouchPosition :: "CropEnv \<Rightarrow> Touch \<Rightarrow> TouchPoint" where
  "getTouchPosition env touch =
     (case containerRef env of
        None \<Rightarrow> \<lparr>point_x = 0, point_y = 0\<rparr>
      | Some c \<Rightarrow> \<lparr>point_x = clientX touch - rect_left (boundingRect c),
                  point_y = clientY touch - rect_top (boundingRect c)\<rparr>)"

text \<open>
  The handlers take the list \<open>e.touches\<close> of the event. \<open>touches ! 0\<close> is read only where
  the list has exactly one element.
\<close>

definition handleTouchStart :: "CropEnv \<Rightarrow> Touch list \<Rightarrow> CropTool \<Rightarrow> CropTool" where
  "handleTouchStart env touches s =
     (let s1 = s\<lparr>touchStart := map (getTouchPosition env) touches\<rparr>
      in if length touches = 1 then
           (let touch = getTouchPosition env (touches ! 0)
            in s1\<lparr>isDragging := True,
                  dragStart := \<lparr>point_x = point_x touch - crop_x (cropData s),
                                point_y = point_y touch - crop_y (cropData s)\<rparr>\<rparr>)
         else if length touches = 2 then
           s1\<lparr>isPinching := True, isDragging := False,
                lastTouchDistance := getTouchDistance touches\<rparr>
         else s1)"

text \<open>\<open>containerRef.current?.clientWidth || 0\<close> and its sibling for the height.\<close>

definition clientWidth_or_0 :: "CropEnv \<Rightarrow> real" where
  "clientWidth_or_0 env = (case containerRef env of None \<Rightarrow> 0 | Some c \<Rightarrow> clientWidth c)"

definition clientHeight_or_0 :: "CropEnv \<Rightarrow> real" where
  "clientHeight_or_0 env = (case containerRef env of None \<Rightarrow> 0 | Some c \<Rightarrow> clientHeight c)"

definition handleTouchMove :: "CropEnv \<Rightarrow> Touch list \<Rightarrow> CropTool \<Rightarrow> CropTool" where
  "handleTouchMove env touches s =
     (if length touches = 1 \<and> isDragging s \<and> \<not> isPinching s then
        (let touch = getTouchPosition env (touches ! 0);
             newX = point_x touch - point_x (dragStart s);
             newY = point_y touch - point_y (dragStart s);
             prev = cropData s
         in s\<lparr>cropData := prev
               \<lparr>crop_x := max 0 (min newX (clientWidth_or_0 env - crop_width prev)),
                crop_y := max 0 (min newY (clientHeight_or_0 env - crop_height prev))\<rparr>\<rparr>)
      else if length touches = 2 \<and> isPinching s then
        (let currentDistance = getTouchDistance touches;
             scaleFactor = js_div (Fin currentDistance) (Fin (lastTouchDistance s));
             prev = cropData s
         in s\<lparr>cropData := prev
               \<lparr>zoom := Math_max (Fin 0.5) (Math_min (Fin 3) (js_mul (zoom prev) scaleFactor))\<rparr>,
              lastTouchDistance := currentDistance\<rparr>)
      else s)"

definition handleTouchEnd :: "CropEnv \<Rightarrow> Touch list \<Rightarrow> CropTool \<Rightarrow> CropTool" where
  "handleTouchEnd env touches s =
     (if length touches = 0 then s\<lparr>isDragging := False, isPinching := False\<rparr>
      else if length touches = 1 \<and> isPinching s then
        (let touch = getTouchPosition env (touches ! 0)
         in s\<lparr>isPinching := False, isDragging := True,
              dragStart := \<lparr>point_x = point_x touch - crop_x (cropData s),
                            point_y = point_y touch - crop_y (cropData s)\<rparr>\<rparr>)
      else s)"

text \<open>Mouse events carry \<open>clientX\<close> and \<open>clientY\<close> like a touch does.\<close>

definition handleMouseDown :: "CropEnv \<Rightarrow> Touch \<Rightarrow> CropTool \<Rightarrow> CropTool" where
  "handleMouseDown env e s =
     (case containerRef env of
        None \<Rightarrow> s
      | Some c \<Rightarrow>
          (let x = clientX e - rect_left (boundingRect c);
               y = clientY e - rect_top (boundingRect c)
           in s\<lparr>isDragging := True,
                dragStart := \<lparr>point_x = x - crop_x (cropData s),
                              point_y = y - crop_y (cropData s)\<rparr>\<rparr>))"

definition handleMouseMove :: "CropEnv \<Rightarrow> Touch \<Rightarrow> CropTool \<Rightarrow> CropTool" where
  "handleMouseMove env e s =
     (if isDragging s then
        (case containerRef env of
           None \<Rightarrow> s
         | Some c \<Rightarrow>
             (let rect = boundingRect c;
                  x = clientX e - rect_left rect;
                  y = clientY e - rect_top rect;
                  newX = x - point_x (dragStart s);
                  newY = y - point_y (dragStart s);
                  prev = cropData s
              in s\<lparr>cropData := prev
                    \<lparr>crop_x := max 0 (min newX (rect_width rect - crop_width prev)),
                     crop_y := max 0 (min newY (rect_height rect - crop_height prev))\<rparr>\<rparr>))
      else s)"

definition handleMouseUp :: "CropTool \<Rightarrow> CropTool" where
  "handleMouseUp s = s\<lparr>isDragging := False\<rparr>"

definition zoomIn :: "CropTool \<Rightarrow> CropTool" where
  "zoomIn s = s\<lparr>cropData := (cropData s)
                 \<lparr>zoom := Math_min (Fin 3) (js_add (zoom (cropData s)) (Fin 0.1))\<rparr>\<rparr>"

definition zoomOut :: "CropTool \<Rightarrow> CropTool" where
  "zoomOut s = s\<lparr>cropData := (cropData s)
                  \<lparr>zoom := Math_max (Fin 0.5) (js_sub (zoom (cropData s)) (Fin 0.1))\<rparr>\<rparr>"

definition rotateImage :: "CropTool \<Rightarrow> CropTool" where
  "rotateImage s = s\<lparr>cropData := (cropData s)
                      \<lparr>rotation := js_rem (rotation (cropData s) + 90) 360\<rparr>\<rparr>"

definition resetCrop :: "CropEnv \<Rightarrow> CropTool \<Rightarrow> CropTool" where
  "resetCrop env s =
     s\<lparr>cropData := \<lparr>crop_x = 0, crop_y = 0, crop_width = 300,
                     crop_height = 300 / aspectRatio env, zoom = Fin 1, rotation = 0\<rparr>\<rparr>"

text \<open>
  The effect "Initialize crop area when image loads": it runs after mounting and again
  whenever the \<open>aspectRatio\<close> prop changes.
\<close>

definition initCropArea :: "CropEnv \<Rightarrow> CropTool \<Rightarrow> CropTool" where
  "initCropArea env s =
     (case imageRef env of
        None \<Rightarrow> s
      | Some img \<Rightarrow>
          (case containerRef env of
             None \<Rightarrow> s
           | Some c \<Rightarrow>
               (let containerRect = boundingRect c;
                    cropWidth = min 300 (rect_width containerRect * 0.8);
                    cropHeight = cropWidth / aspectRatio env
                in s\<lparr>cropData := (cropData s)
                      \<lparr>crop_width := cropWidth, crop_height := cropHeight,
                       crop_x := (rect_width containerRect - cropWidth) / 2,
                       crop_y := (rect_height containerRect - cropHeight) / 2\<rparr>\<rparr>)))"

text \<open>The component once mounted: the initial state after the initialisation effect.\<close>

definition mounted :: "CropEnv \<Rightarrow> CropTool" where
  "mounted env = initCropArea env initialCropTool"

text \<open>The events the component reacts to, and a run of them in order.\<close>

datatype CropEvent =
    TouchStart "Touch list"
  | TouchMove "Touch list"
  | TouchEnd "Touch list"
  | MouseDown Touch
  | MouseMove Touch
  | MouseUp
  | MouseLeave
  | ZoomIn
  | ZoomOut
  | Rotate
  | Reset

fun handleEvent :: "CropEnv \<Rightarrow> CropEvent \<Rightarrow> CropTool \<Rightarrow> CropTool" where
  "handleEvent env (TouchStart ts) s = handleTouchStart env ts s"
| "handleEvent env (TouchMove ts) s = handleTouchMove env ts s"
| "handleEvent env (TouchEnd ts) s = handleTouchEnd env ts s"
| "handleEvent env (MouseDown e) s = handleMouseDown env e s"
| "handleEvent env (MouseMove e) s = handleMouseMove env e s"
| "handleEvent env MouseUp s = handleMouseUp s"
| "handleEvent env MouseLeave s = handleMouseUp s"
| "handleEvent env ZoomIn s = zoomIn s"
| "handleEvent env ZoomOut s = zoomOut s"
| "handleEvent env Rotate s = rotateImage s"
| "handleEvent env Reset s = resetCrop env s"

fun runEvents :: "CropEnv \<Rightarrow> CropEvent list \<Rightarrow> CropTool \<Rightarrow> CropTool" where
  "runEvents env [] s = s"
| "runEvents env (e # es) s = runEvents env es (handleEvent env e s)"

text \<open>The containment invariant of the crop region, against the container's client size.\<close>

definition insideContainer :: "CropEnv \<Rightarrow> CropData \<Rightarrow> bool" where
  "insideContainer env r =
     (0 \<le> crop_x r \<and> 0 \<le> crop_y r
      \<and> crop_x r + crop_width r \<le> clientWidth_or_0 env
      \<and> crop_y r + crop_height r \<le> clientHeight_or_0 env)"

definition zoomInRange :: "jsnum \<Rightarrow> bool" where
  "zoomInRange z = (case z of Fin v \<Rightarrow> 0.5 \<le> v \<and> v \<le> 3 | PInf \<Rightarrow> False | NInf \<Rightarrow> False | NaN \<Rightarrow> False)"

section \<open>Rounding to a binary64 number\<close>

text \<open>
  Where a quotient is truncated to an integer, its last bit decides the result, so the
  rounding of the division is part of the model: a JavaScript number is a binary64
  floating-point number, and \<open>a / b\<close> is the exact quotient rounded to the nearest such
  number, ties to the even significand. \<open>binary64\<close> is that rounding on the reals, for the
  normal range (53 significant bits; the exponent is that of the leading bit).
\<close>

definition roundTiesToEven :: "real \<Rightarrow> int" where
  "roundTiesToEven y =
     (let f = \<lfloor>y\<rfloor>; d = y - of_int f
      in if d < 1 / 2 then f else if 1 / 2 < d then f + 1 else if even f then f else f + 1)"

definition binary64_exponent :: "real \<Rightarrow> int" where
  "binary64_exponent x = \<lfloor>log 2 \<bar>x\<bar>\<rfloor>"

definition binary64 :: "real \<Rightarrow> real" where
  "binary64 x =
     (if x = 0 then 0
      else (let e = binary64_exponent x
            in if e \<le> 52
               then of_int (roundTiesToEven (x * 2 ^ nat (52 - e))) / 2 ^ nat (52 - e)
               else of_int (roundTiesToEven (x / 2 ^ nat (e - 52))) * 2 ^ nat (e - 52)))"

section \<open>Rasterising the crop (\<open>applyCrop\<close> of MobileCropTool)\<close>

text \<open>
  Assigning a number to \<open>canvas.width\<close> or \<open>canvas.height\<close> is not repository code but the
  DOM's \<open>unsigned long\<close> setter: the number is truncated towards zero and taken modulo
  \<open>2^32\<close>, and a result above \<open>2147483647\<close> is replaced by the attribute's default
  (300 for the width, 150 for the height).
\<close>

definition toUint32 :: "real \<Rightarrow> nat" where
  "toUint32 v = nat ((if v < 0 then \<lceil>v\<rceil> else \<lfloor>v\<rfloor>) mod 2 ^ 32)"

definition setCanvasDim :: "nat \<Rightarrow> real \<Rightarrow> nat" where
  "setCanvasDim dflt v = (let n = toUint32 v in if n \<le> 2147483647 then n else dflt)"

text \<open>The nine arguments of \<open>ctx.drawImage\<close> after the image: source and destination rectangle.\<close>

record DrawImage =
  src_x :: jsnum
  src_y :: jsnum
  src_w :: jsnum
  src_h :: jsnum
  dst_x :: jsnum
  dst_y :: jsnum
  dst_w :: jsnum
  dst_h :: jsnum

text \<open>The transformations in the order they are applied, then the draw.\<close>

record Drawing =
  translate_x :: real
  translate_y :: real
  rotate_angle :: real
  scale_by :: jsnum
  drawImage :: DrawImage

text \<open>
  What \<open>applyCrop\<close> leaves behind: the size of the canvas, what was drawn on it (nothing on
  the early return for a missing container rectangle) and the URL passed to
  \<open>onCropComplete\<close> (none for a \<open>null\<close> blob).
\<close>

record CropOutput =
  crop_canvas_width :: nat
  crop_canvas_height :: nat
  drawing :: "Drawing option"
  croppedUrl :: "string option"

text \<open>
  \<open>outputHeight = outputWidth / aspectRatio\<close> is the binary64 quotient: the canvas setter
  truncates it, so its rounding shows in the height of the raster.
\<close>

definition applyCrop :: "CropEnv \<Rightarrow> CropTool \<Rightarrow> CropOutput option" where
  "applyCrop env s =
     (case imageRef env of
        None \<Rightarrow> None
      | Some img \<Rightarrow>
          if canvasRef env \<and> context2d env then
            (let outputWidth = 400;
                 outputHeight = binary64 (outputWidth / aspectRatio env);
                 w = setCanvasDim 300 outputWidth;
                 h = setCanvasDim 150 outputHeight;
                 imgRect = imgDisplayRect img;
                 cd = cropData s
             in case containerRef env of
                  None \<Rightarrow> Some \<lparr>crop_canvas_width = w, crop_canvas_height = h, drawing = None,
                                 croppedUrl = None\<rparr>
                | Some c \<Rightarrow>
                    (let scaleX = js_div (Fin (naturalWidth img)) (Fin (rect_width imgRect));
                         scaleY = js_div (Fin (naturalHeight img)) (Fin (rect_height imgRect));
                         cropX = js_mul (Fin (crop_x cd)) scaleX;
                         cropY = js_mul (Fin (crop_y cd)) scaleY;
                         cropWidth = js_mul (Fin (crop_width cd)) scaleX;
                         cropHeight = js_mul (Fin (crop_height cd)) scaleY
                     in Some \<lparr>crop_canvas_width = w, crop_canvas_height = h,
                          drawing = Some
                            \<lparr>translate_x = outputWidth / 2, translate_y = outputHeight / 2,
                             rotate_angle = (real_of_int (rotation cd) * pi) / 180,
                             scale_by = zoom cd,
                             drawImage =
                               \<lparr>src_x = cropX, src_y = cropY, src_w = cropWidth, src_h = cropHeight,
                                dst_x = js_div (Fin (- outputWidth)) (js_mul (Fin 2) (zoom cd)),
                                dst_y = js_div (Fin (- outputHeight)) (js_mul (Fin 2) (zoom cd)),
                                dst_w = js_div (Fin outputWidth) (zoom cd),
                                dst_h = js_div (Fin outputHeight) (zoom cd)\<rparr>\<rparr>,
                          croppedUrl = blobUrl env\<rparr>))
          else None)"

text \<open>The longer edge of the output raster, and the source rectangle handed to \<open>drawImage\<close>.\<close>

definition outputLongEdge :: "CropEnv \<Rightarrow> CropTool \<Rightarrow> nat option" where
  "outputLongEdge env s =
     (case applyCrop env s of
        None \<Rightarrow> None
      | Some out \<Rightarrow> Some (max (crop_canvas_width out) (crop_canvas_height out)))"


text \<open>
  A concrete setting: the container is 512 by 384 CSS pixels (the \<open>max-w-lg\<close> wrapper and
  the \<open>h-96\<close> container of the markup), the image element fills it, the photo is the
  1280 by 720 camera frame, and the ratio is the default passport ratio \<open>4/6\<close>.
\<close>

definition rect512x384 :: DOMRect where
  "rect512x384 = \<lparr>rect_left = 0, rect_top = 0, rect_width = 512, rect_height = 384\<rparr>"

definition passportEnv :: CropEnv where
  "passportEnv =
     \<lparr>containerRef = Some \<lparr>boundingRect = rect512x384, clientWidth = 512, clientHeight = 384\<rparr>,
      imageRef = Some \<lparr>naturalWidth = 1280, naturalHeight = 720, imgDisplayRect = rect512x384\<rparr>,
      canvasRef = True, context2d = True, blobUrl = Some ''blob:cropped'',
      aspectRatio = 4 / 6\<rparr>"

definition touchAt :: "real \<Rightarrow> real \<Rightarrow> Touch" where
  "touchAt x y = \<lparr>clientX = x, clientY = y\<rparr>"

text \<open>
  The default region and the source-rectangle mapping as the specification words them,
  for comparison with \<open>resetCrop\<close> and \<open>applyCrop\<close>: a region 80% of the container wide,
  its height derived from the aspect ratio, centred, zoom 1, rotation 0; and a source
  rectangle whose every coordinate is the display coordinate times natural/display,
  rounded down.
\<close>

definition spec_defaultRegion :: "CropEnv \<Rightarrow> CropData \<Rightarrow> bool" where
  "spec_defaultRegion env r =
     (crop_width r = 0.8 * clientWidth_or_0 env
      \<and> crop_height r = crop_width r / aspectRatio env
      \<and> crop_x r = (clientWidth_or_0 env - crop_width r) / 2
      \<and> crop_y r = (clientHeight_or_0 env - crop_height r) / 2
      \<and> zoom r = Fin 1 \<and> rotation r = 0)"



text \<open>Runs of events used below: a one-finger drag, and a pinch with both fingers on one spot.\<close>

definition dragTo :: "real \<Rightarrow> real \<Rightarrow> CropEvent list" where
  "dragTo x y = [TouchStart [touchAt 200 100], TouchMove [touchAt x y]]"

definition coincidentPinch :: "CropEvent list" where
  "coincidentPinch =
     [TouchStart [touchAt 200 100, touchAt 200 100], TouchMove [touchAt 200 100, touchAt 200 100]]"


text \<open>
  The same setting with the ratio as the program holds it, the binary64 value of the
  literal: \<open>4/6\<close> (passport), \<open>4/5\<close> (linkedin), and \<open>25/22\<close>.
\<close>

definition passport64Env :: CropEnv where
  "passport64Env = passportEnv\<lparr>aspectRatio := binary64 (4 / 6)\<rparr>"

definition linkedin64Env :: CropEnv where
  "linkedin64Env = passportEnv\<lparr>aspectRatio := binary64 (4 / 5)\<rparr>"

definition ratio2522Env :: CropEnv where
  "ratio2522Env = passportEnv\<lparr>aspectRatio := binary64 (25 / 22)\<rparr>"

text \<open>A narrow container, 320 by 384 CSS pixels, with the passport ratio.\<close>

definition rect320x384 :: DOMRect where
  "rect320x384 = \<lparr>rect_left = 0, rect_top = 0, rect_width = 320, rect_height = 384\<rparr>"

definition narrowEnv :: CropEnv where
  "narrowEnv =
     \<lparr>containerRef = Some \<lparr>boundingRect = rect320x384, clientWidth = 320, clientHeight = 384\<rparr>,
      imageRef = Some \<lparr>naturalWidth = 1280, naturalHeight = 720, imgDisplayRect = rect320x384\<rparr>,
      canvasRef = True, context2d = True, blobUrl = Some ''blob:cropped'',
      aspectRatio = 4 / 6\<rparr>"



section \<open>Background templating (CVPhotoTemplates, \<open>applyTemplate\<close>)\<close>

datatype Category = Cat_professional | Cat_creative | Cat_formal | Cat_modern

datatype Background = Solid string | Gradient "string list" | Pattern string

datatype Lighting = L_soft | L_studio | L_natural

datatype FrameStyle = FS_none | FS_thin | FS_thick | FS_shadow

record Effects =
  effect_blur :: "real option"
  effect_lighting :: "Lighting option"
  effect_contrast :: "real option"
  effect_warmth :: "real option"

record Frame =
  frame_style :: FrameStyle
  frame_color :: "string option"

text \<open>A catalogue entry; the \<open>icon\<close> (a React node) plays no part in the raster.\<close>

record PhotoTemplate =
  template_id :: string
  template_name :: string
  template_description :: string
  category :: Category
  background :: Background
  effects :: "Effects option"
  frame :: "Frame option"
  ratio :: real

definition mkEffects :: "Lighting \<Rightarrow> real \<Rightarrow> real option \<Rightarrow> Effects" where
  "mkEffects l c w =
     \<lparr>effect_blur = None, effect_lighting = Some l, effect_contrast = Some c, effect_warmth = w\<rparr>"

definition photoTemplates :: "PhotoTemplate list" where
  "photoTemplates =
     [\<lparr>template_id = ''professional-white'', template_name = ''Professional White'',
       template_description = ''Clean white background for traditional CVs'',
       category = Cat_professional, background = Solid ''#ffffff'',
       effects = Some (mkEffects L_studio 105 None),
       frame = Some \<lparr>frame_style = FS_none, frame_color = None\<rparr>, ratio = 4 / 6\<rparr>,
      \<lparr>template_id = ''professional-gray'', template_name = ''Professional Gray'',
       template_description = ''Sophisticated gray background'',
       category = Cat_professional, background = Solid ''#f8f9fa'',
       effects = Some (mkEffects L_soft 102 None),
       frame = Some \<lparr>frame_style = FS_thin, frame_color = Some ''#e9ecef''\<rparr>, ratio = 4 / 6\<rparr>,
      \<lparr>template_id = ''corporate-gradient'', template_name = ''Corporate Gradient'',
       template_description = ''Modern gradient for corporate roles'',
       category = Cat_modern, background = Gradient [''#f8f9fa'', ''#e9ecef''],
       effects = Some (mkEffects L_studio 108 None),
       frame = Some \<lparr>frame_style = FS_shadow, frame_color = None\<rparr>, ratio = 3 / 4\<rparr>,
      \<lparr>template_id = ''government-blue'', template_name = ''Government Blue'',
       template_description = ''Traditional blue for official documents'',
       category = Cat_formal, background = Solid ''#e3f2fd'',
       effects = Some (mkEffects L_natural 100 None),
       frame = Some \<lparr>frame_style = FS_thick, frame_color = Some ''#1976d2''\<rparr>, ratio = 4 / 6\<rparr>,
      \<lparr>template_id = ''passport-standard'', template_name = ''Passport Standard'',
       template_description = ''International passport photo standards'',
       category = Cat_formal, background = Solid ''#ffffff'',
       effects = Some (mkEffects L_natural 100 None),
       frame = Some \<lparr>frame_style = FS_none, frame_color = None\<rparr>, ratio = 4 / 6\<rparr>,
      \<lparr>template_id = ''linkedin-style'', template_name = ''LinkedIn Style'',
       template_description = ''Optimized for professional social media'',
       category = Cat_modern, background = Gradient [''#ffffff'', ''#f0f0f0''],
       effects = Some (mkEffects L_soft 110 (Some 5)),
       frame = Some \<lparr>frame_style = FS_shadow, frame_color = None\<rparr>, ratio = 4 / 5\<rparr>,
      \<lparr>template_id = ''startup-modern'', template_name = ''Startup Modern'',
       template_description = ''Contemporary look for tech companies'',
       category = Cat_modern, background = Gradient [''#f8f9ff'', ''#e8f0fe''],
       effects = Some (mkEffects L_soft 112 (Some 3)),
       frame = Some \<lparr>frame_style = FS_thin, frame_color = Some ''#6366f1''\<rparr>, ratio = 1 / 1\<rparr>,
      \<lparr>template_id = ''creative-warm'', template_name = ''Creative Warm'',
       template_description = ''Warm tones for creative industries'',
       category = Cat_creative, background = Gradient [''#fef7ed'', ''#fed7aa''],
       effects = Some (mkEffects L_soft 108 (Some 10)),
       frame = Some \<lparr>frame_style = FS_shadow, frame_color = None\<rparr>, ratio = 3 / 4\<rparr>,
      \<lparr>template_id = ''artistic-minimal'', template_name = ''Artistic Minimal'',
       template_description = ''Minimal design for creative roles'',
       category = Cat_creative, background = Gradient [''#fafafa'', ''#f5f5f5''],
       effects = Some (mkEffects L_studio 115 None),
       frame = Some \<lparr>frame_style = FS_none, frame_color = None\<rparr>, ratio = 3 / 4\<rparr>]"

text \<open>What ends up on the canvas, as the sequence of drawing calls.\<close>

datatype FilterFn = Contrast real | Blur real | Sepia real

datatype FillStyle = Color string | LinearGradient real real real real "(real \<times> string) list"

datatype CanvasOp =
    FillRect FillStyle real real real real
  | DrawImageOp "FilterFn list" real real real real
  | StrokeRect string real real real real real
  | ShadowFillRect string real real real real

record Canvas =
  canvas_width :: nat
  canvas_height :: nat
  canvas_ops :: "CanvasOp list"

text \<open>The one failure the component reports: \<open>console.error('Error applying template:', error)\<close>.\<close>

datatype template_error = TemplateApplyFailed

text \<open>
  State of the templates component together with what it has let out: the calls of
  \<open>onTemplateApplied\<close> in order, and the errors written to the console.
\<close>

record TemplateState =
  selectedTemplate :: string
  isProcessing :: bool
  previewUrl :: string
  canvas :: Canvas
  templateApplied :: "string list"
  consoleErrors :: "template_error list"

definition initialTemplateState :: TemplateState where
  "initialTemplateState =
     \<lparr>selectedTemplate = '''', isProcessing = False, previewUrl = '''',
      canvas = \<lparr>canvas_width = 300, canvas_height = 150, canvas_ops = []\<rparr>,
      templateApplied = [], consoleErrors = []\<rparr>"

text \<open>
  The surroundings of one call: whether the canvas ref is set, whether it yields a 2d
  context, the size of the image if \<open>imageUrl\<close> decodes (\<open>None\<close> when \<open>onerror\<close> fires; a
  decoded image has positive width and height), and the object URL of the blob.
\<close>

record TemplateEnv =
  tpl_canvasRef :: bool
  tpl_context2d :: bool
  tpl_decoded :: "(real \<times> real) option"
  tpl_blobUrl :: "string option"

text \<open>The \<open>catch\<close> block.\<close>

definition templateFailed :: "TemplateState \<Rightarrow> TemplateState" where
  "templateFailed s = s\<lparr>consoleErrors := consoleErrors s @ [TemplateApplyFailed], isProcessing := False\<rparr>"

text \<open>A truthy number is one that is not zero.\<close>

definition effectFilters :: "Effects option \<Rightarrow> FilterFn list" where
  "effectFilters e =
     (case e of
        None \<Rightarrow> []
      | Some fx \<Rightarrow>
          (case effect_contrast fx of None \<Rightarrow> [] | Some c \<Rightarrow> if c \<noteq> 0 then [Contrast c] else [])
          @ (case effect_blur fx of None \<Rightarrow> [] | Some b \<Rightarrow> if b \<noteq> 0 then [Blur b] else [])
          @ (case effect_warmth fx of None \<Rightarrow> [] | Some w \<Rightarrow> if w \<noteq> 0 then [Sepia w] else []))"

definition frameOps :: "Frame option \<Rightarrow> real \<Rightarrow> real \<Rightarrow> CanvasOp list" where
  "frameOps f canvasWidth canvasHeight =
     (case f of
        None \<Rightarrow> []
      | Some fr \<Rightarrow>
          (let strokeStyle = (case frame_color fr of
                                None \<Rightarrow> ''#000000''
                              | Some col \<Rightarrow> if col = '''' then ''#000000'' else col)
           in case frame_style fr of
                FS_none \<Rightarrow> []
              | FS_thin \<Rightarrow> [StrokeRect strokeStyle 2 1 1 (canvasWidth - 2) (canvasHeight - 2)]
              | FS_thick \<Rightarrow> [StrokeRect strokeStyle 8 4 4 (canvasWidth - 8) (canvasHeight - 8)]
              | FS_shadow \<Rightarrow> [ShadowFillRect ''white'' 10 10 (canvasWidth - 20) (canvasHeight - 20)]))"

text \<open>
  The gradient stops \<open>index / (colors.length - 1)\<close>. A single colour makes the offset
  \<open>0 / 0\<close>, which \<open>addColorStop\<close> rejects by throwing; the call then ends in the \<open>catch\<close>
  block with the canvas already resized.
\<close>

definition gradientStops :: "string list \<Rightarrow> (real \<times> string) list" where
  "gradientStops colors =
     map (\<lambda>i. (real i / real (length colors - 1), colors ! i)) [0 ..< length colors]"

definition backgroundOps :: "Background \<Rightarrow> real \<Rightarrow> real \<Rightarrow> CanvasOp list option" where
  "backgroundOps bg canvasWidth canvasHeight =
     (case bg of
        Solid col \<Rightarrow> Some [FillRect (Color col) 0 0 canvasWidth canvasHeight]
      | Gradient colors \<Rightarrow>
          if length colors = 1 then None
          else Some [FillRect (LinearGradient 0 0 canvasWidth canvasHeight (gradientStops colors))
                       0 0 canvasWidth canvasHeight]
      | Pattern style \<Rightarrow> Some [])"

definition applyTemplate :: "TemplateEnv \<Rightarrow> PhotoTemplate \<Rightarrow> TemplateState \<Rightarrow> TemplateState" where
  "applyTemplate env template s =
     (if tpl_canvasRef env then
        (let s1 = s\<lparr>isProcessing := True, selectedTemplate := template_id template\<rparr>
         in if tpl_context2d env then
              (case tpl_decoded env of
                 None \<Rightarrow> templateFailed s1
               | Some (img_width, img_height) \<Rightarrow>
                   (let maxSize = 800;
                        canvasWidth = (if ratio template \<ge> 1 then maxSize else maxSize * ratio template);
                        canvasHeight = (if ratio template \<ge> 1 then maxSize / ratio template else maxSize);
                        s2 = s1\<lparr>canvas := \<lparr>canvas_width = setCanvasDim 300 canvasWidth,
                                             canvas_height = setCanvasDim 150 canvasHeight,
                                             canvas_ops = []\<rparr>\<rparr>
                    in case backgroundOps (background template) canvasWidth canvasHeight of
                         None \<Rightarrow> templateFailed s2
                       | Some bgOps \<Rightarrow>
                           (let padding = 40;
                                availableWidth = canvasWidth - padding * 2;
                                availableHeight = canvasHeight - padding * 2;
                                imgRatio = img_width / img_height;
                                availableRatio = availableWidth / availableHeight;
                                imgWidth = (if imgRatio > availableRatio then availableWidth
                                            else availableHeight * imgRatio);
                                imgHeight = (if imgRatio > availableRatio then availableWidth / imgRatio
                                             else availableHeight);
                                imgX = (canvasWidth - imgWidth) / 2;
                                imgY = (canvasHeight - imgHeight) / 2;
                                s3 = s2\<lparr>canvas := (canvas s2)
                                       \<lparr>canvas_ops := bgOps
                                          @ [DrawImageOp (effectFilters (effects template))
                                               imgX imgY imgWidth imgHeight]
                                          @ frameOps (frame template) canvasWidth canvasHeight\<rparr>\<rparr>
                            in case tpl_blobUrl env of
                                 None \<Rightarrow> s3\<lparr>isProcessing := False\<rparr>
                               | Some processedUrl \<Rightarrow>
                                   s3\<lparr>previewUrl := processedUrl,
                                      templateApplied := templateApplied s3 @ [processedUrl],
                                      isProcessing := False\<rparr>)))
            else templateFailed s1)
      else s)"

text \<open>A call in which the source image fails to decode, and one in which it decodes.\<close>

definition decodeFails :: TemplateEnv where
  "decodeFails = \<lparr>tpl_canvasRef = True, tpl_context2d = True, tpl_decoded = None,
                   tpl_blobUrl = Some ''blob:templated''\<rparr>"

definition decodeSucceeds :: TemplateEnv where
  "decodeSucceeds = \<lparr>tpl_canvasRef = True, tpl_context2d = True, tpl_decoded = Some (400, 600),
                      tpl_blobUrl = Some ''blob:templated''\<rparr>"

text \<open>The state after one earlier, successful application of the first catalogue entry.\<close>

definition afterFirstTemplate :: TemplateState where
  "afterFirstTemplate = applyTemplate decodeSucceeds (photoTemplates ! 0) initialTemplateState"

text \<open>
  The orchestrator passes \<open>handleTemplateApplied\<close> as \<open>onTemplateApplied\<close>: every URL the
  component lets out during a call reaches the workflow through it.
\<close>

definition newlyApplied :: "TemplateState \<Rightarrow> TemplateState \<Rightarrow> string list" where
  "newlyApplied s s' = drop (length (templateApplied s)) (templateApplied s')"

definition templateStage :: "TemplateEnv \<Rightarrow> PhotoTemplate \<Rightarrow> TemplateState \<times> Workflow \<Rightarrow> TemplateState \<times> Workflow" where
  "templateStage env template sw =
     (let s' = applyTemplate env template (fst sw)
      in (s', fold handleTemplateApplied (newlyApplied (fst sw) s') (snd sw)))"

text \<open>The workflow in the templates stage, holding the three earlier artifacts.\<close>

definition templatesWorkflow :: Workflow where
  "templatesWorkflow =
     \<lparr>currentStep = WS_templates, capturedImage = ''blob:captured'',
      croppedImage = ''blob:cropped'', enhancedImage = ''blob:enhanced'', finalImage = ''''\<rparr>"

section \<open>Orchestrator: the guard lives in the button, not in \<open>goNext\<close>\<close>

lemma indexOf_steps:
  "indexOf steps WS_capture = 0" "indexOf steps WS_crop = 1" "indexOf steps WS_enhance = 2"
  "indexOf steps WS_templates = 3" "indexOf steps WS_final = 4"
  by (simp_all add: indexOf_def steps_def)

lemma goNext_step:
  "currentStep (goNext w) =
     (case currentStep w of WS_capture \<Rightarrow> WS_crop | WS_crop \<Rightarrow> WS_enhance
        | WS_enhance \<Rightarrow> WS_templates | WS_templates \<Rightarrow> WS_final | WS_final \<Rightarrow> WS_final)"
  by (cases "currentStep w") (simp_all add: goNext_def indexOf_steps, simp_all add: steps_def)

text \<open>
  C2, as stated, fails: \<open>goNext()\<close> itself has no guard. Called in the capture stage with
  no captured image (where \<open>canGoNext\<close> is false) it moves the workflow to the crop stage.
\<close>

theorem C2_goNext_unguarded_counterexample:
  "\<not> canGoNext initialWorkflow \<and> currentStep initialWorkflow = WS_capture
   \<and> currentStep (goNext initialWorkflow) = WS_crop"
  by (simp add: goNext_step) (simp add: canGoNext_def initialWorkflow_def)

text \<open>
  C2, amended: the Next control (enabled only while \<open>canGoNext()\<close> holds) leaves the whole
  workflow state, and so the current stage, unchanged whenever the guard of the current
  stage is unsatisfied; in particular in the capture stage with no captured image.
\<close>

theorem C2_clickNext_guarded:
  "\<not> canGoNext w \<Longrightarrow> clickNext w = w"
  by (simp add: clickNext_def)

theorem C2_clickNext_guarded_witness:
  "\<not> canGoNext initialWorkflow \<and> clickNext initialWorkflow = initialWorkflow
   \<and> currentStep (clickNext initialWorkflow) = WS_capture"
proof -
  have g: "\<not> canGoNext initialWorkflow"
    by (simp add: canGoNext_def initialWorkflow_def)
  have "clickNext initialWorkflow = initialWorkflow"
    using C2_clickNext_guarded [OF g] .
  with g show ?thesis by (simp add: initialWorkflow_def)
qed

section \<open>File ingestion: rejections\<close>

text \<open>
  C4, as stated, fails for the second half: a file larger than 10 MiB is not always
  rejected with \<open>FileTooLarge\<close>. An 11 MiB GIF is rejected with \<open>UnsupportedFormat\<close>,
  because the type is checked first.
\<close>

theorem C4_large_gif_counterexample:
  "file_size gif_11MiB > 10 * 1024 * 1024
   \<and> fst (handleFileUpload (Some gif_11MiB) initialCapture) \<noteq> Some FileTooLarge"
  by (simp add: handleFileUpload_def gif_11MiB_def supportedTypes_def)

text \<open>
  C4, amended: every file declared \<open>image/gif\<close> is rejected with \<open>UnsupportedFormat\<close>, and
  every file of a supported type that is larger than 10 MiB is rejected with
  \<open>FileTooLarge\<close>; in both cases the component state (selected image, current step, mode)
  is returned unchanged, so no image artifact is produced.
\<close>

theorem C4_rejections:
  "(file_type f = ''image/gif'' \<longrightarrow>
      handleFileUpload (Some f) s = (Some UnsupportedFormat, s))
   \<and> (file_type f \<in> set supportedTypes \<and> file_size f > 10 * 1024 * 1024 \<longrightarrow>
      handleFileUpload (Some f) s = (Some FileTooLarge, s))"
  by (simp add: handleFileUpload_def supportedTypes_def)

theorem C4_rejections_witness:
  "file_type gif_11MiB = ''image/gif''
   \<and> handleFileUpload (Some gif_11MiB) initialCapture = (Some UnsupportedFormat, initialCapture)
   \<and> file_type png_11MiB \<in> set supportedTypes \<and> file_size png_11MiB > 10 * 1024 * 1024
   \<and> handleFileUpload (Some png_11MiB) initialCapture = (Some FileTooLarge, initialCapture)"
proof -
  have a: "file_type gif_11MiB = ''image/gif''"
    by (simp add: gif_11MiB_def)
  have b: "file_type png_11MiB \<in> set supportedTypes \<and> file_size png_11MiB > 10 * 1024 * 1024"
    by (simp add: png_11MiB_def supportedTypes_def)
  from a b C4_rejections [of gif_11MiB initialCapture] C4_rejections [of png_11MiB initialCapture]
  show ?thesis by blast
qed

text \<open>
  C10: the format check runs before the size check. Whatever its size, a file whose type
  is outside the supported set is rejected with \<open>UnsupportedFormat\<close>, and the state is
  left as it was.
\<close>

theorem C10_format_before_size:
  "file_type f \<notin> set supportedTypes \<Longrightarrow>
     handleFileUpload (Some f) s = (Some UnsupportedFormat, s)"
  by (simp add: handleFileUpload_def)

theorem C10_format_before_size_witness:
  "file_type gif_11MiB \<notin> set supportedTypes \<and> file_size gif_11MiB > 10 * 1024 * 1024
   \<and> handleFileUpload (Some gif_11MiB) initialCapture = (Some UnsupportedFormat, initialCapture)"
proof -
  have a: "file_type gif_11MiB \<notin> set supportedTypes"
    by (simp add: gif_11MiB_def supportedTypes_def)
  have b: "file_size gif_11MiB > 10 * 1024 * 1024"
    by (simp add: gif_11MiB_def)
  from a b C10_format_before_size [OF a, of initialCapture] show ?thesis by simp
qed

section \<open>Crop controller: concrete runs\<close>

lemmas crop_run_defs = mounted_def initCropArea_def passportEnv_def rect512x384_def initialCropTool_def
  handleTouchStart_def handleTouchMove_def getTouchPosition_def touchAt_def
  clientWidth_or_0_def clientHeight_or_0_def Let_def inf_times_def dragTo_def coincidentPinch_def

lemma mounted_passport:
  "cropData (mounted passportEnv) =
     \<lparr>crop_x = 106, crop_y = - 33, crop_width = 300, crop_height = 450, zoom = Fin 1, rotation = 0\<rparr>"
  by (simp add: crop_run_defs)

lemma dragged_passport:
  "cropData (runEvents passportEnv (dragTo 210 120) (mounted passportEnv)) =
     \<lparr>crop_x = 116, crop_y = 0, crop_width = 300, crop_height = 450, zoom = Fin 1, rotation = 0\<rparr>"
  by (simp add: crop_run_defs)

text \<open>
  C1 says that every crop region reachable from the initialised one by drags, pinches,
  zooming, rotating and resetting lies inside the container: \<open>x \<ge> 0\<close>, \<open>y \<ge> 0\<close>,
  \<open>x + width \<le> containerWidth\<close>, \<open>y + height \<le> containerHeight\<close>. The code breaks it.
  In the 512 by 384 container with the default passport ratio the initialisation effect
  centres a 300 by 450 region, which puts its top edge at \<open>y = - 33\<close>; and after a drag
  the clamp yields \<open>y = 0\<close> with the bottom edge at \<open>450 > 384\<close>. The clamp of the drag
  handlers never changes the size, and neither the effect nor \<open>resetCrop\<close> fits the
  height to the container.
\<close>

theorem C1_region_leaves_container:
  "crop_y (cropData (mounted passportEnv)) = - 33
   \<and> \<not> insideContainer passportEnv (cropData (mounted passportEnv))
   \<and> crop_y (cropData (runEvents passportEnv (dragTo 210 120) (mounted passportEnv))) = 0
   \<and> crop_height (cropData (runEvents passportEnv (dragTo 210 120) (mounted passportEnv))) = 450
   \<and> clientHeight_or_0 passportEnv = 384
   \<and> \<not> insideContainer passportEnv
         (cropData (runEvents passportEnv (dragTo 210 120) (mounted passportEnv)))"
  unfolding mounted_passport dragged_passport
  by (simp add: insideContainer_def clientHeight_or_0_def passportEnv_def)

text \<open>
  What the handlers do achieve: a drag puts a region that fits the container inside it,
  and zooming, rotating and pinching leave the region where it is.
\<close>

lemma clamp_inside:
  fixes v lim size :: real
  assumes "size \<le> lim"
  shows "0 \<le> max 0 (min v (lim - size)) \<and> max 0 (min v (lim - size)) + size \<le> lim"
  using assms by (simp add: max_def min_def)

lemma handleTouchMove_drag_inside:
  assumes "containerRef env = Some c" "length touches = 1" "isDragging s" "\<not> isPinching s"
    and "crop_width (cropData s) \<le> clientWidth c" "crop_height (cropData s) \<le> clientHeight c"
  shows "insideContainer env (cropData (handleTouchMove env touches s))"
  using assms clamp_inside [OF assms(5)] clamp_inside [OF assms(6)]
  by (simp add: handleTouchMove_def Let_def insideContainer_def clientWidth_or_0_def
        clientHeight_or_0_def)

lemma zoom_rotate_keep_region:
  "insideContainer env (cropData (zoomIn s)) = insideContainer env (cropData s)"
  "insideContainer env (cropData (zoomOut s)) = insideContainer env (cropData s)"
  "insideContainer env (cropData (rotateImage s)) = insideContainer env (cropData s)"
  by (simp_all add: zoomIn_def zoomOut_def rotateImage_def insideContainer_def)

lemma handleTouchMove_pinch_keeps_region:
  assumes "length touches = 2"
  shows "insideContainer env (cropData (handleTouchMove env touches s)) =
         insideContainer env (cropData s)"
  using assms by (simp add: handleTouchMove_def Let_def insideContainer_def)

section \<open>Crop controller: zoom\<close>

text \<open>
  The clamp \<open>Math.max(0.5, Math.min(3, \<dots>))\<close> bounds every scale factor that is a number,
  finite or infinite, and the zoom buttons keep the zoom in range.
\<close>

lemma pinch_zoom_in_range:
  "zoomInRange z \<Longrightarrow> sf \<noteq> NaN \<Longrightarrow>
     zoomInRange (Math_max (Fin 0.5) (Math_min (Fin 3) (js_mul z sf)))"
  by (cases z; cases sf) (auto simp: zoomInRange_def inf_times_def)

lemma zoomIn_in_range:
  "zoomInRange (zoom (cropData s)) \<Longrightarrow> zoomInRange (zoom (cropData (zoomIn s)))"
  by (cases "zoom (cropData s)") (auto simp: zoomInRange_def zoomIn_def)

lemma zoomOut_in_range:
  "zoomInRange (zoom (cropData s)) \<Longrightarrow> zoomInRange (zoom (cropData (zoomOut s)))"
  by (cases "zoom (cropData s)") (auto simp: zoomInRange_def zoomOut_def js_sub_def)

text \<open>
  A pinch move from a zoom in range ends in range exactly when the two touch distances,
  the previous and the current one, are not both zero.
\<close>

lemma js_div_NaN_iff:
  "js_div (Fin a) (Fin b) = NaN \<longleftrightarrow> a = 0 \<and> b = 0"
  by (simp add: inf_times_def)

lemma clamp_NaN:
  "Math_max a (Math_min b (js_mul z NaN)) = NaN"
  by (cases z; cases b; cases a) simp_all

lemma handleTouchMove_pinch_zoom:
  assumes "length touches = 2" "isPinching s" "zoomInRange (zoom (cropData s))"
  shows "zoomInRange (zoom (cropData (handleTouchMove env touches s))) \<longleftrightarrow>
         \<not> (getTouchDistance touches = 0 \<and> lastTouchDistance s = 0)"
proof (cases "getTouchDistance touches = 0 \<and> lastTouchDistance s = 0")
  case True
  then have "zoom (cropData (handleTouchMove env touches s)) = NaN"
    using assms(1,2) by (simp add: handleTouchMove_def Let_def inf_times_def clamp_NaN)
  with True show ?thesis by (simp add: zoomInRange_def)
next
  case False
  then have "js_div (Fin (getTouchDistance touches)) (Fin (lastTouchDistance s)) \<noteq> NaN"
    by (simp only: js_div_NaN_iff) simp
  from pinch_zoom_in_range [OF assms(3) this] False assms(1,2)
  show ?thesis by (simp add: handleTouchMove_def Let_def)
qed

text \<open>
  C3 says that after every pinch move, zoom-in and zoom-out the zoom lies between 0.5 and
  3, whatever the ratio of the touch distances. The code breaks it at one input: when
  both touches of a pinch lie on the same spot at its start and at the next move, the
  scale factor is \<open>0 / 0 = NaN\<close>, \<open>Math.min\<close> and \<open>Math.max\<close> pass \<open>NaN\<close> on, and the zoom
  leaves the interval.
\<close>

theorem C3_coincident_pinch_gives_NaN:
  "zoomInRange (zoom (cropData (mounted passportEnv)))
   \<and> zoom (cropData (runEvents passportEnv coincidentPinch (mounted passportEnv))) = NaN
   \<and> \<not> zoomInRange (zoom (cropData (runEvents passportEnv coincidentPinch (mounted passportEnv))))"
  by (simp add: crop_run_defs zoomInRange_def)

section \<open>Crop controller: rotation\<close>

lemma js_rem_360:
  "js_rem 90 360 = 90" "js_rem 180 360 = 180" "js_rem 270 360 = 270" "js_rem 360 360 = 0"
  by (simp_all add: js_rem_def)

lemma js_rem_quarter_turns:
  "r \<in> {0, 90, 180, 270} \<Longrightarrow>
     js_rem (js_rem (js_rem (js_rem (r + 90) 360 + 90) 360 + 90) 360 + 90) 360 = r"
  by (elim insertE emptyE) (simp_all add: js_rem_360)

lemma rotateImage_rotation:
  "rotation (cropData (rotateImage s)) = js_rem (rotation (cropData s) + 90) 360"
  by (simp add: rotateImage_def)

lemma rotateImage_four:
  "rotateImage (rotateImage (rotateImage (rotateImage s))) =
     s\<lparr>cropData := (cropData s)
        \<lparr>rotation := js_rem (js_rem (js_rem (js_rem (rotation (cropData s) + 90) 360 + 90) 360 + 90) 360 + 90) 360\<rparr>\<rparr>"
  by (simp add: rotateImage_def)

lemma js_rem_quarter_step:
  "r \<in> {0, 90, 180, 270} \<Longrightarrow> js_rem (r + 90) 360 = (r + 90) mod 360"
  by (elim insertE emptyE) (simp_all add: js_rem_360)

lemma rotateImage_steps_initial:
  "rotation (cropData (rotateImage initialCropTool)) = 90"
  "rotation (cropData (rotateImage (rotateImage initialCropTool))) = 180"
  "rotation (cropData (rotateImage (rotateImage (rotateImage initialCropTool)))) = 270"
  by (simp_all add: rotateImage_rotation initialCropTool_def js_rem_360)

text \<open>
  C9: for every crop state whose rotation is one of 0, 90, 180, 270, one application of the
  rotate operation adds 90 degrees modulo 360 to the rotation and touches nothing else,
  and four applications return the crop state to where it was.
\<close>

theorem C9_rotate_four_times:
  assumes "rotation (cropData s) \<in> {0, 90, 180, 270}"
  shows "rotateImage s =
           s\<lparr>cropData := (cropData s)\<lparr>rotation := (rotation (cropData s) + 90) mod 360\<rparr>\<rparr>
         \<and> rotateImage (rotateImage (rotateImage (rotateImage s))) = s"
proof
  show "rotateImage s =
      s\<lparr>cropData := (cropData s)\<lparr>rotation := (rotation (cropData s) + 90) mod 360\<rparr>\<rparr>"
    by (simp only: rotateImage_def js_rem_quarter_step [OF assms])
  show "rotateImage (rotateImage (rotateImage (rotateImage s))) = s"
    using assms by (simp only: rotateImage_four js_rem_quarter_turns) simp
qed

theorem C9_rotate_four_times_witness:
  "rotation (cropData initialCropTool) \<in> {0, 90, 180, 270}
   \<and> rotateImage initialCropTool =
       initialCropTool\<lparr>cropData := (cropData initialCropTool)\<lparr>rotation := 90\<rparr>\<rparr>
   \<and> rotation (cropData (rotateImage (rotateImage initialCropTool))) = 180
   \<and> rotation (cropData (rotateImage (rotateImage (rotateImage initialCropTool)))) = 270
   \<and> rotateImage (rotateImage (rotateImage (rotateImage initialCropTool))) = initialCropTool"
proof -
  have r: "rotation (cropData initialCropTool) \<in> {0, 90, 180, 270}"
    by (simp add: initialCropTool_def)
  have z: "(rotation (cropData initialCropTool) + 90) mod 360 = 90"
    by (simp add: initialCropTool_def)
  note t = C9_rotate_four_times [OF r]
  have one: "rotateImage initialCropTool =
      initialCropTool\<lparr>cropData := (cropData initialCropTool)\<lparr>rotation := 90\<rparr>\<rparr>"
    using t [THEN conjunct1] unfolding z .
  have four: "rotateImage (rotateImage (rotateImage (rotateImage initialCropTool))) = initialCropTool"
    using t [THEN conjunct2] .
  from r one rotateImage_steps_initial(2,3) four show ?thesis by blast
qed

section \<open>Crop controller: reset\<close>

text \<open>
  The region the initialisation effect sets, for comparison: at most 300 wide and at most
  80% of the container width, centred.
\<close>

lemma initCropArea_region:
  assumes "imageRef env = Some img" "containerRef env = Some c"
  shows "cropData (initCropArea env s) =
     (cropData s)\<lparr>crop_width := min 300 (rect_width (boundingRect c) * 0.8),
       crop_height := min 300 (rect_width (boundingRect c) * 0.8) / aspectRatio env,
       crop_x := (rect_width (boundingRect c) - min 300 (rect_width (boundingRect c) * 0.8)) / 2,
       crop_y := (rect_height (boundingRect c)
                  - min 300 (rect_width (boundingRect c) * 0.8) / aspectRatio env) / 2\<rparr>"
  using assms by (simp add: initCropArea_def Let_def)

text \<open>The region \<open>resetCrop\<close> writes, whatever the container.\<close>

lemma resetCrop_region:
  "cropData (resetCrop env s) =
     \<lparr>crop_x = 0, crop_y = 0, crop_width = 300, crop_height = 300 / aspectRatio env,
      zoom = Fin 1, rotation = 0\<rparr>"
  by (simp add: resetCrop_def)

lemma mounted_narrow:
  "cropData (mounted narrowEnv) =
     \<lparr>crop_x = 32, crop_y = 0, crop_width = 256, crop_height = 384, zoom = Fin 1, rotation = 0\<rparr>"
  by (simp add: mounted_def initCropArea_def narrowEnv_def rect320x384_def initialCropTool_def
        Let_def)

lemma reset_narrow:
  "cropData (resetCrop narrowEnv (mounted narrowEnv)) =
     \<lparr>crop_x = 0, crop_y = 0, crop_width = 300, crop_height = 450, zoom = Fin 1, rotation = 0\<rparr>"
  by (simp add: resetCrop_region narrowEnv_def)

text \<open>
  C6 says that reset restores the default crop region: 80% of the container wide, its
  height derived from the active aspect ratio, centred, with zoom 1 and rotation 0. The
  code breaks it. In a container 320 wide and 384 high with the passport ratio the
  initialisation effect sets exactly that region, 256 by 384 at \<open>x = 32\<close>, \<open>y = 0\<close>; but
  \<open>resetCrop\<close> never reads the container and writes a region 300 by 450 at the origin.
\<close>

theorem C6_reset_not_default_region:
  "cropData (mounted narrowEnv) =
     \<lparr>crop_x = 32, crop_y = 0, crop_width = 256, crop_height = 384, zoom = Fin 1, rotation = 0\<rparr>
   \<and> spec_defaultRegion narrowEnv (cropData (mounted narrowEnv))
   \<and> cropData (resetCrop narrowEnv (mounted narrowEnv)) =
     \<lparr>crop_x = 0, crop_y = 0, crop_width = 300, crop_height = 450, zoom = Fin 1, rotation = 0\<rparr>
   \<and> \<not> spec_defaultRegion narrowEnv (cropData (resetCrop narrowEnv (mounted narrowEnv)))"
  unfolding mounted_narrow reset_narrow
  by (simp add: spec_defaultRegion_def clientWidth_or_0_def clientHeight_or_0_def narrowEnv_def)

section \<open>Binary64 rounding: bounds and values\<close>

lemma roundTiesToEven_floor: "\<lfloor>y\<rfloor> \<le> roundTiesToEven y"
  by (simp add: roundTiesToEven_def Let_def)

lemma roundTiesToEven_le_int:
  assumes "y \<le> of_int k"
  shows "roundTiesToEven y \<le> k"
proof (cases "y = of_int \<lfloor>y\<rfloor>")
  case True
  then have "roundTiesToEven y = \<lfloor>y\<rfloor>" by (simp add: roundTiesToEven_def Let_def)
  moreover have "\<lfloor>y\<rfloor> \<le> k" using assms by (simp add: floor_le_iff) 
  ultimately show ?thesis by simp
next
  case False
  then have "of_int \<lfloor>y\<rfloor> < y" using of_int_floor_le [of y] by linarith
  with assms have "of_int \<lfloor>y\<rfloor> < (of_int k :: real)" by linarith
  then have "\<lfloor>y\<rfloor> < k" by simp
  moreover have "roundTiesToEven y \<le> \<lfloor>y\<rfloor> + 1" by (simp add: roundTiesToEven_def Let_def)
  ultimately show ?thesis by linarith
qed

lemma roundTiesToEven_near: "of_int (roundTiesToEven y) \<le> y + 1 / 2"
proof (cases "y - of_int \<lfloor>y\<rfloor> < 1 / 2")
  case True
  then have "roundTiesToEven y = \<lfloor>y\<rfloor>" by (simp add: roundTiesToEven_def Let_def)
  moreover have "of_int \<lfloor>y\<rfloor> \<le> y" by simp
  ultimately show ?thesis by linarith
next
  case False
  have "roundTiesToEven y \<le> \<lfloor>y\<rfloor> + 1" by (simp add: roundTiesToEven_def Let_def)
  then have "real_of_int (roundTiesToEven y) \<le> real_of_int (\<lfloor>y\<rfloor> + 1)"
    by (simp only: of_int_le_iff)
  with False show ?thesis by simp
qed

lemma binary64_exponent_bounds:
  assumes "0 < x"
  shows "2 powr of_int (binary64_exponent x) \<le> x"
    and "x < 2 powr of_int (binary64_exponent x + 1)"
  using floor_log_eq_powr_iff [of x 2 "binary64_exponent x"] assms
  by (simp_all add: binary64_exponent_def)

lemma binary64_exponentI:
  assumes "0 < x" "2 powr of_int e \<le> x" "x < 2 powr of_int (e + 1)"
  shows "binary64_exponent x = e"
  using floor_log_eq_powr_iff [of x 2 e] assms by (simp add: binary64_exponent_def)

lemma binary64_exponent_nat:
  assumes "2 ^ n \<le> x" "x < 2 ^ Suc n"
  shows "binary64_exponent x = int n"
proof (rule binary64_exponentI)
  have "(0::real) < 2 ^ n" by simp
  with assms(1) show "0 < x" by linarith
  show "2 powr of_int (int n) \<le> x" using assms(1) by (simp add: powr_realpow)
  have "(2::real) powr of_int (int n + 1) = 2 ^ Suc n"
    using powr_realpow [of 2 "Suc n"] by (simp add: add.commute)
  with assms(2) show "x < 2 powr of_int (int n + 1)" by simp
qed

lemma binary64_exponent_half:
  assumes "1 / 2 \<le> x" "x < 1"
  shows "binary64_exponent x = - 1"
proof (rule binary64_exponentI)
  show "0 < x" using assms(1) by linarith
  show "2 powr of_int (- 1) \<le> x" using assms(1) by (simp add: powr_minus_divide)
  show "x < 2 powr of_int (- 1 + 1)" using assms(2) by simp
qed

lemma binary64_exponent_small:
  assumes "0 < q" "q \<le> 2147483647"
  shows "binary64_exponent q \<le> 30"
proof (rule ccontr)
  assume "\<not> binary64_exponent q \<le> 30"
  then have "(31::real) \<le> of_int (binary64_exponent q)" by linarith
  then have "(2::real) powr 31 \<le> 2 powr of_int (binary64_exponent q)"
    by (intro powr_mono) simp_all
  moreover have "(2::real) powr 31 = 2 ^ 31"
    using powr_realpow [of 2 31] by simp
  ultimately have "(2::real) ^ 31 \<le> q"
    using binary64_exponent_bounds(1) [OF assms(1)] by linarith
  with assms(2) show False by simp
qed

lemma binary64_scaled:
  assumes "0 < q" "q \<le> 2147483647"
  shows "binary64 q =
     of_int (roundTiesToEven (q * 2 ^ nat (52 - binary64_exponent q)))
       / 2 ^ nat (52 - binary64_exponent q)"
  using assms binary64_exponent_small [OF assms] by (simp add: binary64_def Let_def)

lemma binary64_ge_floor:
  assumes "0 < q" "q \<le> 2147483647"
  shows "of_int \<lfloor>q\<rfloor> \<le> binary64 q"
proof -
  let ?n = "nat (52 - binary64_exponent q)"
  have "of_int (\<lfloor>q\<rfloor> * 2 ^ ?n) \<le> q * 2 ^ ?n"
    by (simp add: mult_right_mono)
  then have "\<lfloor>q\<rfloor> * 2 ^ ?n \<le> \<lfloor>q * 2 ^ ?n\<rfloor>"
    by (simp only: le_floor_iff)
  also have "\<dots> \<le> roundTiesToEven (q * 2 ^ ?n)" by (rule roundTiesToEven_floor)
  finally have "real_of_int (\<lfloor>q\<rfloor> * 2 ^ ?n) \<le> real_of_int (roundTiesToEven (q * 2 ^ ?n))"
    by (simp only: of_int_le_iff)
  then have "of_int \<lfloor>q\<rfloor> * 2 ^ ?n \<le> real_of_int (roundTiesToEven (q * 2 ^ ?n))"
    by simp
  then have "of_int \<lfloor>q\<rfloor> \<le> real_of_int (roundTiesToEven (q * 2 ^ ?n)) / 2 ^ ?n"
    by (simp add: pos_le_divide_eq)
  then show ?thesis by (simp only: binary64_scaled [OF assms])
qed

lemma binary64_le_int:
  assumes "0 < q" "q \<le> 2147483647" "q \<le> of_int m"
  shows "binary64 q \<le> of_int m"
proof -
  let ?n = "nat (52 - binary64_exponent q)"
  have "q * 2 ^ ?n \<le> of_int (m * 2 ^ ?n)"
    using assms(3) by (simp add: mult_right_mono)
  then have "roundTiesToEven (q * 2 ^ ?n) \<le> m * 2 ^ ?n"
    by (rule roundTiesToEven_le_int)
  then have "real_of_int (roundTiesToEven (q * 2 ^ ?n)) \<le> real_of_int (m * 2 ^ ?n)"
    by (simp only: of_int_le_iff)
  then have "real_of_int (roundTiesToEven (q * 2 ^ ?n)) \<le> of_int m * 2 ^ ?n"
    by simp
  then have "real_of_int (roundTiesToEven (q * 2 ^ ?n)) / 2 ^ ?n \<le> of_int m"
    by (simp add: pos_divide_le_eq)
  then show ?thesis by (simp only: binary64_scaled [OF assms(1,2)])
qed

lemma binary64_unit:
  assumes "0 < q" "q \<le> 2147483647"
  shows "1 / 2 ^ nat (52 - binary64_exponent q) \<le> q / 2 ^ 52"
proof -
  let ?e = "binary64_exponent q"
  let ?n = "nat (52 - ?e)"
  have e: "?e \<le> 30" by (rule binary64_exponent_small [OF assms])
  have "(2::real) ^ ?n = 2 powr real ?n" by (simp add: powr_realpow)
  also have "real ?n = 52 - of_int ?e" using e by simp
  finally have n: "(2::real) ^ ?n = 2 powr (52 - of_int ?e)" .
  have "(2::real) powr of_int ?e * 2 ^ ?n = 2 powr (of_int ?e + (52 - of_int ?e))"
    by (simp only: n powr_add)
  also have "\<dots> = 2 powr 52" by simp
  also have "\<dots> = 2 ^ 52" using powr_realpow [of 2 52] by simp
  finally have p: "(2::real) powr of_int ?e * 2 ^ ?n = 2 ^ 52" .
  have "(2::real) powr of_int ?e \<le> q" by (rule binary64_exponent_bounds(1) [OF assms(1)])
  then have "(2::real) powr of_int ?e * 2 ^ ?n \<le> q * 2 ^ ?n"
    by (simp add: mult_right_mono)
  with p have "(2::real) ^ 52 \<le> q * 2 ^ ?n" by simp
  then show ?thesis by (simp add: field_simps)
qed

lemma binary64_le_relative:
  assumes "0 < q" "q \<le> 2147483647"
  shows "binary64 q \<le> q * (1 + 1 / 2 ^ 53)"
proof -
  let ?n = "nat (52 - binary64_exponent q)"
  have "real_of_int (roundTiesToEven (q * 2 ^ ?n)) \<le> q * 2 ^ ?n + 1 / 2"
    by (rule roundTiesToEven_near)
  then have "real_of_int (roundTiesToEven (q * 2 ^ ?n)) / 2 ^ ?n \<le> (q * 2 ^ ?n + 1 / 2) / 2 ^ ?n"
    by (simp add: divide_right_mono)
  also have "\<dots> = q + (1 / 2 ^ ?n) / 2" by (simp add: field_simps)
  also have "\<dots> \<le> q + (q / 2 ^ 52) / 2"
    using binary64_unit [OF assms] by simp
  also have "\<dots> = q * (1 + 1 / 2 ^ 53)" by (simp add: field_simps)
  finally show ?thesis by (simp only: binary64_scaled [OF assms])
qed

lemma truncated_binary64:
  assumes "0 < q" "q \<le> 2147483647"
  shows "0 \<le> binary64 q" "binary64 q < 2147483648"
    "q - 1 < of_int \<lfloor>binary64 q\<rfloor>" "of_int \<lfloor>binary64 q\<rfloor> \<le> q * (1 + 1 / 2 ^ 53)"
proof -
  have fl: "of_int \<lfloor>q\<rfloor> \<le> binary64 q" by (rule binary64_ge_floor [OF assms])
  have "(0::real) \<le> of_int \<lfloor>q\<rfloor>" using assms(1) by simp
  with fl show "0 \<le> binary64 q" by linarith
  have "binary64 q \<le> of_int 2147483647"
    by (rule binary64_le_int [OF assms]) (use assms(2) in simp)
  then show "binary64 q < 2147483648" by simp
  from fl have "\<lfloor>q\<rfloor> \<le> \<lfloor>binary64 q\<rfloor>" by (simp only: le_floor_iff)
  then have "real_of_int \<lfloor>q\<rfloor> \<le> real_of_int \<lfloor>binary64 q\<rfloor>" by (simp only: of_int_le_iff)
  moreover have "q - 1 < real_of_int \<lfloor>q\<rfloor>" by linarith
  ultimately show "q - 1 < of_int \<lfloor>binary64 q\<rfloor>" by linarith
  have "real_of_int \<lfloor>binary64 q\<rfloor> \<le> binary64 q" by simp
  with binary64_le_relative [OF assms]
  show "of_int \<lfloor>binary64 q\<rfloor> \<le> q * (1 + 1 / 2 ^ 53)" by linarith
qed

text \<open>
  The ratios as the program holds them, and the heights the quotient \<open>400 / ratio\<close> is
  rounded to: 600 for the passport ratio, 500 for the linkedin ratio although the exact
  quotient lies below 500, and a number below 352 for \<open>25/22\<close>.
\<close>

lemma binary64_passport: "binary64 (4 / 6) = 6004799503160661 / 9007199254740992"
proof -
  have "binary64_exponent (4 / 6) = - 1" by (rule binary64_exponent_half) simp_all
  then show ?thesis by (simp add: binary64_def roundTiesToEven_def Let_def)
qed

lemma binary64_passport_fixed:
  "binary64 (6004799503160661 / 9007199254740992) = 6004799503160661 / 9007199254740992"
proof -
  have "binary64_exponent (6004799503160661 / 9007199254740992) = - 1"
    by (rule binary64_exponent_half) simp_all
  then show ?thesis by (simp add: binary64_def roundTiesToEven_def Let_def)
qed

lemma binary64_passport_height:
  "binary64 (400 / (6004799503160661 / 9007199254740992)) = 600"
proof -
  have "binary64_exponent (400 / (6004799503160661 / 9007199254740992)) = int 9"
    by (rule binary64_exponent_nat) simp_all
  then show ?thesis by (simp add: binary64_def roundTiesToEven_def Let_def)
qed

lemma binary64_linkedin: "binary64 (4 / 5) = 3602879701896397 / 4503599627370496"
proof -
  have "binary64_exponent (4 / 5) = - 1" by (rule binary64_exponent_half) simp_all
  then show ?thesis by (simp add: binary64_def roundTiesToEven_def Let_def)
qed

lemma binary64_linkedin_height:
  "binary64 (400 / (3602879701896397 / 4503599627370496)) = 500"
proof -
  have "binary64_exponent (400 / (3602879701896397 / 4503599627370496)) = int 8"
    by (rule binary64_exponent_nat) simp_all
  then show ?thesis by (simp add: binary64_def roundTiesToEven_def Let_def)
qed

lemma binary64_2522: "binary64 (25 / 22) = 5117726849284655 / 4503599627370496"
proof -
  have "binary64_exponent (25 / 22) = int 0"
    by (rule binary64_exponent_nat) simp_all
  then show ?thesis by (simp add: binary64_def roundTiesToEven_def Let_def)
qed

lemma binary64_2522_height:
  "\<lfloor>binary64 (400 / (5117726849284655 / 4503599627370496))\<rfloor> = 351"
proof -
  have "binary64_exponent (400 / (5117726849284655 / 4503599627370496)) = int 8"
    by (rule binary64_exponent_nat) simp_all
  then show ?thesis by (simp add: binary64_def roundTiesToEven_def Let_def)
qed

section \<open>Rasterising the crop: output size\<close>

lemma setCanvasDim_floor:
  assumes "0 \<le> v" "v < 2147483648"
  shows "setCanvasDim d v = nat \<lfloor>v\<rfloor>"
proof -
  have lo: "0 \<le> \<lfloor>v\<rfloor>" using assms(1) by simp
  have hi: "\<lfloor>v\<rfloor> < 2147483648" using assms(2) by (simp add: floor_less_iff)
  from lo hi have m: "\<lfloor>v\<rfloor> mod 4294967296 = \<lfloor>v\<rfloor>" by simp
  from assms(1) have "toUint32 v = nat \<lfloor>v\<rfloor>"
    by (simp add: toUint32_def m)
  moreover from lo hi have "nat \<lfloor>v\<rfloor> \<le> 2147483647" by linarith
  ultimately show ?thesis by (simp add: setCanvasDim_def)
qed

lemma applyCrop_canvas:
  assumes "applyCrop env s = Some out"
  shows "crop_canvas_width out = setCanvasDim 300 400
         \<and> crop_canvas_height out = setCanvasDim 150 (binary64 (400 / aspectRatio env))"
  using assms
  by (auto simp: applyCrop_def Let_def split: option.splits if_splits)

lemma applyCrop_Some:
  assumes "imageRef env = Some img" "canvasRef env" "context2d env"
  shows "\<exists>out. applyCrop env s = Some out"
  using assms by (cases "containerRef env") (simp_all add: applyCrop_def Let_def)

lemma applyCrop_size:
  assumes "imageRef env = Some img" "canvasRef env" "context2d env"
    and "0 \<le> binary64 (400 / aspectRatio env)" "binary64 (400 / aspectRatio env) < 2147483648"
  shows "map_option crop_canvas_width (applyCrop env s) = Some 400"
    and "map_option crop_canvas_height (applyCrop env s) =
           Some (nat \<lfloor>binary64 (400 / aspectRatio env)\<rfloor>)"
proof -
  from applyCrop_Some [OF assms(1-3)] obtain out where out: "applyCrop env s = Some out" ..
  from applyCrop_canvas [OF out] out
  show "map_option crop_canvas_width (applyCrop env s) = Some 400"
    by (simp add: setCanvasDim_floor)
  from applyCrop_canvas [OF out] out setCanvasDim_floor [OF assms(4,5)]
  show "map_option crop_canvas_height (applyCrop env s) =
           Some (nat \<lfloor>binary64 (400 / aspectRatio env)\<rfloor>)"
    by simp
qed

text \<open>The output for the three ratios: 400 by 600, 400 by 500 and 400 by 351.\<close>

lemma applyCrop_passport64:
  "map_option crop_canvas_width (applyCrop passport64Env s) = Some 400"
  "map_option crop_canvas_height (applyCrop passport64Env s) = Some 600"
proof -
  have r: "aspectRatio passport64Env = 6004799503160661 / 9007199254740992"
    by (simp only: passport64Env_def binary64_passport) simp
  have i: "imageRef passport64Env =
      Some \<lparr>naturalWidth = 1280, naturalHeight = 720, imgDisplayRect = rect512x384\<rparr>"
    and c: "canvasRef passport64Env" and x: "context2d passport64Env"
    by (simp_all add: passport64Env_def passportEnv_def)
  have h: "binary64 (400 / aspectRatio passport64Env) = 600"
    by (simp only: r binary64_passport_height)
  from applyCrop_size [OF i c x, of s] h
  show "map_option crop_canvas_width (applyCrop passport64Env s) = Some 400"
    "map_option crop_canvas_height (applyCrop passport64Env s) = Some 600"
    by simp_all
qed

lemma applyCrop_linkedin64:
  "map_option crop_canvas_width (applyCrop linkedin64Env s) = Some 400"
  "map_option crop_canvas_height (applyCrop linkedin64Env s) = Some 500"
proof -
  have r: "aspectRatio linkedin64Env = 3602879701896397 / 4503599627370496"
    by (simp add: linkedin64Env_def binary64_linkedin)
  have i: "imageRef linkedin64Env =
      Some \<lparr>naturalWidth = 1280, naturalHeight = 720, imgDisplayRect = rect512x384\<rparr>"
    and c: "canvasRef linkedin64Env" and x: "context2d linkedin64Env"
    by (simp_all add: linkedin64Env_def passportEnv_def)
  have h: "binary64 (400 / aspectRatio linkedin64Env) = 500"
    by (simp only: r binary64_linkedin_height)
  from applyCrop_size [OF i c x, of s] h
  show "map_option crop_canvas_width (applyCrop linkedin64Env s) = Some 400"
    "map_option crop_canvas_height (applyCrop linkedin64Env s) = Some 500"
    by simp_all
qed

lemma applyCrop_ratio2522:
  "map_option crop_canvas_height (applyCrop ratio2522Env s) = Some 351"
proof -
  have r: "aspectRatio ratio2522Env = 5117726849284655 / 4503599627370496"
    by (simp add: ratio2522Env_def binary64_2522)
  have i: "imageRef ratio2522Env =
      Some \<lparr>naturalWidth = 1280, naturalHeight = 720, imgDisplayRect = rect512x384\<rparr>"
    and c: "canvasRef ratio2522Env" and x: "context2d ratio2522Env"
    by (simp_all add: ratio2522Env_def passportEnv_def)
  have q: "0 < 400 / aspectRatio ratio2522Env" "400 / aspectRatio ratio2522Env \<le> 2147483647"
    by (simp_all add: r)
  have h: "\<lfloor>binary64 (400 / aspectRatio ratio2522Env)\<rfloor> = 351"
    by (simp only: r binary64_2522_height)
  from applyCrop_size(2) [OF i c x truncated_binary64(1,2) [OF q], of s] h
  show ?thesis by simp
qed

text \<open>
  C5, as stated, fails: the 400 pixels are the width, not the long edge. For the passport
  ratio \<open>4/6\<close> the output raster is 400 by 600, so its long edge measures 600.
\<close>

theorem C5_long_edge_counterexample:
  "outputLongEdge passport64Env (mounted passport64Env) = Some 600"
proof -
  from applyCrop_passport64 [of "mounted passport64Env"]
  obtain out where "applyCrop passport64Env (mounted passport64Env) = Some out"
    "crop_canvas_width out = 400" "crop_canvas_height out = 600"
    by auto
  then show ?thesis by (simp add: outputLongEdge_def)
qed

text \<open>
  C5, amended: whenever \<open>applyCrop\<close> runs (image, canvas and context present), for every
  positive aspect ratio (a binary64 number with \<open>400 / aspectRatio\<close> at most 2147483647) it
  sizes the output raster to a width of exactly 400 pixels and to the height that the
  binary64 quotient \<open>400 / aspectRatio\<close> truncates to; that height is more than
  \<open>400 / aspectRatio - 1\<close> and at most \<open>400 / aspectRatio\<close> times \<open>1 + 2^-53\<close>, so the ratio
  of width to height equals the aspect ratio up to one pixel of height.
\<close>

theorem C5_output_width_400:
  assumes "imageRef env = Some img" "canvasRef env" "context2d env"
    and "binary64 (aspectRatio env) = aspectRatio env"
    and "0 < aspectRatio env" "400 / aspectRatio env \<le> 2147483647"
  shows "\<exists>out. applyCrop env s = Some out
           \<and> crop_canvas_width out = 400
           \<and> crop_canvas_height out = nat \<lfloor>binary64 (400 / aspectRatio env)\<rfloor>
           \<and> 400 / aspectRatio env - 1 < real (crop_canvas_height out)
           \<and> real (crop_canvas_height out) \<le> 400 / aspectRatio env * (1 + 1 / 2 ^ 53)"
proof -
  have q: "0 < 400 / aspectRatio env" using assms(5) by simp
  note t = truncated_binary64 [OF q assms(6)]
  from applyCrop_Some [OF assms(1-3)] obtain out where out: "applyCrop env s = Some out" ..
  from applyCrop_size [OF assms(1-3) t(1,2), of s] out
  have w: "crop_canvas_width out = 400"
    and h: "crop_canvas_height out = nat \<lfloor>binary64 (400 / aspectRatio env)\<rfloor>"
    by simp_all
  have "0 \<le> \<lfloor>binary64 (400 / aspectRatio env)\<rfloor>" using t(1) by simp
  then have r: "real (crop_canvas_height out) = of_int \<lfloor>binary64 (400 / aspectRatio env)\<rfloor>"
    by (simp add: h)
  from out w h t(3,4) r show ?thesis by simp
qed

theorem C5_output_width_400_witness:
  "imageRef passport64Env \<noteq> None \<and> canvasRef passport64Env \<and> context2d passport64Env
   \<and> binary64 (aspectRatio passport64Env) = aspectRatio passport64Env
   \<and> 0 < aspectRatio passport64Env \<and> 400 / aspectRatio passport64Env \<le> 2147483647
   \<and> map_option crop_canvas_width (applyCrop passport64Env (mounted passport64Env)) = Some 400
   \<and> map_option crop_canvas_height (applyCrop passport64Env (mounted passport64Env)) = Some 600"
proof -
  have r: "aspectRatio passport64Env = 6004799503160661 / 9007199254740992"
    by (simp only: passport64Env_def binary64_passport) simp
  have i: "imageRef passport64Env =
      Some \<lparr>naturalWidth = 1280, naturalHeight = 720, imgDisplayRect = rect512x384\<rparr>"
    and c: "canvasRef passport64Env" and x: "context2d passport64Env"
    by (simp_all add: passport64Env_def passportEnv_def)
  have d: "binary64 (aspectRatio passport64Env) = aspectRatio passport64Env"
    by (simp only: r binary64_passport_fixed)
  have a: "0 < aspectRatio passport64Env" and b: "400 / aspectRatio passport64Env \<le> 2147483647"
    by (simp_all add: r)
  have f: "nat \<lfloor>binary64 (400 / aspectRatio passport64Env)\<rfloor> = 600"
    by (simp only: r binary64_passport_height) simp
  from C5_output_width_400 [OF i c x d a b, of "mounted passport64Env"] f i c x d a b
  show ?thesis by auto
qed

section \<open>Rasterising the crop: source rectangle\<close>








section \<open>Background templating: a source image that fails to decode\<close>

lemma applyTemplate_decode_failure:
  assumes "tpl_canvasRef env" "tpl_context2d env" "tpl_decoded env = None"
  shows "applyTemplate env template s =
     s\<lparr>isProcessing := False, selectedTemplate := template_id template,
       consoleErrors := consoleErrors s @ [TemplateApplyFailed]\<rparr>"
  using assms by (simp add: applyTemplate_def templateFailed_def)

lemma afterFirstTemplate_published:
  "previewUrl afterFirstTemplate = ''blob:templated''"
  "templateApplied afterFirstTemplate = [''blob:templated'']"
  "consoleErrors afterFirstTemplate = []"
  by (simp_all add: afterFirstTemplate_def applyTemplate_def decodeSucceeds_def photoTemplates_def
        initialTemplateState_def backgroundOps_def Let_def)

lemma templateStage_success:
  "snd (templateStage decodeSucceeds (photoTemplates ! 0) (initialTemplateState, templatesWorkflow)) =
     templatesWorkflow\<lparr>finalImage := ''blob:templated'', currentStep := WS_final\<rparr>"
  by (simp add: templateStage_def newlyApplied_def applyTemplate_def decodeSucceeds_def photoTemplates_def
        initialTemplateState_def backgroundOps_def Let_def handleTemplateApplied_def)

text \<open>
  C8: when the source image fails to decode, \<open>applyTemplate\<close> reports the failure
  (\<open>TemplateApplyFailed\<close> on the console) and publishes nothing: the preview URL is the
  one from before, \<open>onTemplateApplied\<close> is not called, the canvas is untouched, and the
  orchestrator's workflow, final image included, stays as it was.
\<close>

theorem C8_decode_failure_leaves_artifact:
  assumes "tpl_canvasRef env" "tpl_context2d env" "tpl_decoded env = None"
  shows "previewUrl (applyTemplate env template s) = previewUrl s
     \<and> templateApplied (applyTemplate env template s) = templateApplied s
     \<and> canvas (applyTemplate env template s) = canvas s
     \<and> consoleErrors (applyTemplate env template s) = consoleErrors s @ [TemplateApplyFailed]
     \<and> \<not> isProcessing (applyTemplate env template s)
     \<and> snd (templateStage env template (s, w)) = w"
  by (simp add: applyTemplate_decode_failure [OF assms] templateStage_def newlyApplied_def)

theorem C8_decode_failure_leaves_artifact_witness:
  "tpl_canvasRef decodeFails \<and> tpl_context2d decodeFails \<and> tpl_decoded decodeFails = None
   \<and> previewUrl (applyTemplate decodeFails (photoTemplates ! 2) afterFirstTemplate) = ''blob:templated''
   \<and> templateApplied (applyTemplate decodeFails (photoTemplates ! 2) afterFirstTemplate) = [''blob:templated'']
   \<and> consoleErrors (applyTemplate decodeFails (photoTemplates ! 2) afterFirstTemplate) = [TemplateApplyFailed]
   \<and> snd (templateStage decodeFails (photoTemplates ! 2) (afterFirstTemplate, templatesWorkflow)) = templatesWorkflow"
proof -
  have a: "tpl_canvasRef decodeFails" and b: "tpl_context2d decodeFails"
    and c: "tpl_decoded decodeFails = None"
    by (simp_all add: decodeFails_def)
  from C8_decode_failure_leaves_artifact [OF a b c, of "photoTemplates ! 2" afterFirstTemplate templatesWorkflow]
    a b c
  show ?thesis by (simp add: afterFirstTemplate_published)
qed

end
